theory Spec2Isabelle
  imports Complex_Main "HOL-Library.Multiset"
begin

section \<open>Python values\<close>

text \<open>
  A Python \<^verbatim>\<open>str\<close> is a sequence of Unicode code points: \<^verbatim>\<open>len\<close> and slicing count code
  points. It is modelled as a list of natural numbers; \<open>lit\<close> turns an ASCII literal of
  the source into such a list.
\<close>

type_synonym pystr = "nat list"

definition lit :: "string \<Rightarrow> pystr" where
  "lit s = map of_char s"

text \<open>
  The values \<^verbatim>\<open>json.loads\<close> produces. A float is the real number it denotes, or one of
  the three non-finite values \<^verbatim>\<open>json.loads\<close> accepts; the program only tests floats for
  truth and prints them. A \<^verbatim>\<open>dict\<close> keeps its insertion order (an association list).
\<close>

datatype pyfloat = Finite real | PosInfinity | NegInfinity | NotANumber

datatype json =
    JNull
  | JBool bool
  | JInt int
  | JFloat pyfloat
  | JStr pystr
  | JArr "json list"
  | JObj "(pystr \<times> json) list"

text \<open>Python's truth test, as used by \<^verbatim>\<open>if not msg\<close> and \<^verbatim>\<open>if desc\<close>.\<close>

fun truthy :: "json \<Rightarrow> bool" where
  "truthy JNull = False"
| "truthy (JBool b) = b"
| "truthy (JInt i) = (i \<noteq> 0)"
| "truthy (JFloat (Finite r)) = (r \<noteq> 0)"
| "truthy (JFloat _) = True"
| "truthy (JStr s) = (s \<noteq> [])"
| "truthy (JArr xs) = (xs \<noteq> [])"
| "truthy (JObj kvs) = (kvs \<noteq> [])"

text \<open>\<^verbatim>\<open>d.get(k, default)\<close>; \<^verbatim>\<open>d.get(k)\<close> is \<open>dict_get d k JNull\<close>.\<close>

definition dict_get :: "(pystr \<times> json) list \<Rightarrow> pystr \<Rightarrow> json \<Rightarrow> json" where
  "dict_get d k dflt = (case map_of d k of None \<Rightarrow> dflt | Some v \<Rightarrow> v)"

text \<open>
  The exceptions that leave the functions below. \<^verbatim>\<open>AttributeError\<close>: a method
  (\<^verbatim>\<open>.get\<close>, \<^verbatim>\<open>.replace\<close>) is called on a value that has none. \<^verbatim>\<open>TypeError\<close>:
  \<^verbatim>\<open>str.join\<close> meets an item that is not a string, or \<^verbatim>\<open>len\<close> a value without length.
\<close>

datatype error = AttributeError | TypeError

section \<open>parse_session\<close>

text \<open>
  One physical line of the transcript after \<^verbatim>\<open>line.strip()\<close> and \<^verbatim>\<open>json.loads\<close>:
  empty after stripping, rejected by the decoder (\<^verbatim>\<open>json.JSONDecodeError\<close>), or decoded.
\<close>

datatype line = Blank | Malformed | Decoded json

record message =
  role :: json
  content :: json
  timestamp :: json
  uuid :: json

text \<open>
  The dictionary \<^verbatim>\<open>session_info\<close> only ever holds these four keys; a key that was
  never assigned is \<open>None\<close>.
\<close>

record session_info =
  summary :: "json option"
  sessionId :: "json option"
  cwd :: "json option"
  version :: "json option"

definition empty_info :: session_info where
  "empty_info = \<lparr>summary = None, sessionId = None, cwd = None, version = None\<rparr>"

text \<open>\<^verbatim>\<open>session_info.get('sessionId')\<close>: \<^verbatim>\<open>None\<close> when the key is not there.\<close>

definition info_sessionId :: "session_info \<Rightarrow> json" where
  "info_sessionId info = (case sessionId info of None \<Rightarrow> JNull | Some v \<Rightarrow> v)"

text \<open>
  The body of the \<^verbatim>\<open>try\<close> block for one decoded line, on the pair
  \<open>(messages, session_info)\<close>. Calling \<^verbatim>\<open>.get\<close> on a value that is not a
  \<^verbatim>\<open>dict\<close> raises \<^verbatim>\<open>AttributeError\<close>, which the handler for \<^verbatim>\<open>JSONDecodeError\<close>
  does not catch.
\<close>

definition handle_record ::
  "json \<Rightarrow> message list \<times> session_info \<Rightarrow> error + (message list \<times> session_info)" where
  "handle_record data st =
     (case data of
        JObj d \<Rightarrow>
          if dict_get d (lit ''type'') JNull = JStr (lit ''summary'') then
            Inr (fst st, (snd st)\<lparr>summary := Some (dict_get d (lit ''summary'') (JStr []))\<rparr>)
          else if dict_get d (lit ''type'') JNull = JStr (lit ''file-history-snapshot'') then
            Inr st
          else
            let msg = dict_get d (lit ''message'') (JObj []) in
            if \<not> truthy msg then Inr st
            else
              (case msg of
                 JObj m \<Rightarrow>
                   let role = dict_get m (lit ''role'') (dict_get d (lit ''type'') (JStr []));
                       content = dict_get m (lit ''content'') (JStr []);
                       timestamp = dict_get d (lit ''timestamp'') (JStr [])
                   in
                     if role = JStr (lit ''user'') \<or> role = JStr (lit ''assistant'') then
                       let messages = fst st @
                              [\<lparr>role = role, content = content, timestamp = timestamp,
                                uuid = dict_get d (lit ''uuid'') (JStr [])\<rparr>];
                           info = snd st
                       in
                         if \<not> truthy (info_sessionId info) then
                           Inr (messages,
                                info\<lparr>sessionId := Some (dict_get d (lit ''sessionId'') (JStr [])),
                                     cwd := Some (dict_get d (lit ''cwd'') (JStr [])),
                                     version := Some (dict_get d (lit ''version'') (JStr []))\<rparr>)
                         else Inr (messages, info)
                     else Inr st
               | _ \<Rightarrow> Inl AttributeError)
      | _ \<Rightarrow> Inl AttributeError)"

text \<open>The loop over the lines; an exception ends it and nothing is returned.\<close>

fun parse_lines ::
  "line list \<Rightarrow> message list \<times> session_info \<Rightarrow> error + (message list \<times> session_info)" where
  "parse_lines [] st = Inr st"
| "parse_lines (Blank # ls) st = parse_lines ls st"
| "parse_lines (Malformed # ls) st = parse_lines ls st"
| "parse_lines (Decoded data # ls) st =
     (case handle_record data st of
        Inl e \<Rightarrow> Inl e
      | Inr st' \<Rightarrow> parse_lines ls st')"

definition parse_session :: "line list \<Rightarrow> error + (message list \<times> session_info)" where
  "parse_session ls = parse_lines ls ([], empty_info)"

section \<open>Strings and library calls\<close>

text \<open>\<^verbatim>\<open>s.replace(old, new)\<close> for a pattern \<open>old\<close> of one character.\<close>

definition replace :: "nat \<Rightarrow> pystr \<Rightarrow> pystr \<Rightarrow> pystr" where
  "replace old new s = concat (map (\<lambda>c. if c = old then new else [c]) s)"

text \<open>
  \<^verbatim>\<open>html.escape(s)\<close> with its default \<^verbatim>\<open>quote=True\<close>: five replacements in a row, the
  ampersand first. The characters are \<^verbatim>\<open>&\<close> (38), \<^verbatim>\<open><\<close> (60), \<^verbatim>\<open>>\<close> (62), the double
  quote (34) and the single quote (39).
\<close>

definition escape :: "pystr \<Rightarrow> pystr" where
  "escape s =
     replace 39 (lit ''&#x27;'')
       (replace 34 (lit ''&quot;'')
          (replace 62 (lit ''&gt;'')
             (replace 60 (lit ''&lt;'')
                (replace 38 (lit ''&amp;'') s))))"

text \<open>\<^verbatim>\<open>escape\<close> calls \<^verbatim>\<open>s.replace\<close>, which only a string has.\<close>

definition escape_value :: "json \<Rightarrow> error + pystr" where
  "escape_value v = (case v of JStr s \<Rightarrow> Inr (escape s) | _ \<Rightarrow> Inl AttributeError)"

text \<open>\<^verbatim>\<open>sep.join(parts)\<close> on strings.\<close>

fun join :: "pystr \<Rightarrow> pystr list \<Rightarrow> pystr" where
  "join sep [] = []"
| "join sep [x] = x"
| "join sep (x # y # ys) = x @ sep @ join sep (y # ys)"

text \<open>
  \<^verbatim>\<open>sep.join(texts)\<close> on a list of any values: an item that is not a string raises
  \<^verbatim>\<open>TypeError\<close>.
\<close>

fun strs_of :: "json list \<Rightarrow> pystr list option" where
  "strs_of [] = Some []"
| "strs_of (JStr s # vs) = map_option ((#) s) (strs_of vs)"
| "strs_of (_ # vs) = None"

definition join_values :: "pystr \<Rightarrow> json list \<Rightarrow> error + pystr" where
  "join_values sep vs = (case strs_of vs of None \<Rightarrow> Inl TypeError | Some ss \<Rightarrow> Inr (join sep ss))"

text \<open>
  The library calls whose results the program passes on without looking into them are
  parameters:
  \<^item> \<open>json_dumps v\<close> is \<^verbatim>\<open>json.dumps(v, indent=2)\<close>;
  \<^item> \<open>py_str v\<close> is \<^verbatim>\<open>str(v)\<close> for a value that is not a string (what an f-string field
    and \<^verbatim>\<open>str()\<close> produce for numbers, \<^verbatim>\<open>None\<close>, lists and dicts);
  \<^item> \<open>sub_code_blocks\<close> and \<open>sub_inline_code\<close> are the two \<^verbatim>\<open>re.sub\<close> calls of the text
    branch (fenced code blocks, then inline code spans).
  None of them raises on the values it receives here.
\<close>

record lib =
  json_dumps :: "json \<Rightarrow> pystr"
  py_str :: "json \<Rightarrow> pystr"
  sub_code_blocks :: "pystr \<Rightarrow> pystr"
  sub_inline_code :: "pystr \<Rightarrow> pystr"

text \<open>An f-string field \<^verbatim>\<open>{v}\<close>, and \<^verbatim>\<open>str(v)\<close>: a string stands for itself.\<close>

definition fmt :: "lib \<Rightarrow> json \<Rightarrow> pystr" where
  "fmt L v = (case v of JStr s \<Rightarrow> s | _ \<Rightarrow> py_str L v)"

section \<open>extract_text_content\<close>

text \<open>One pass of the loop body: the list \<^verbatim>\<open>texts\<close> after the item.\<close>

definition extract_item :: "lib \<Rightarrow> json \<Rightarrow> json list \<Rightarrow> json list" where
  "extract_item L item texts =
     (case item of
        JObj d \<Rightarrow>
          if dict_get d (lit ''type'') JNull = JStr (lit ''text'') then
            texts @ [dict_get d (lit ''text'') (JStr [])]
          else if dict_get d (lit ''type'') JNull = JStr (lit ''thinking'') then
            texts @ [JStr (lit ''[THINKING]\<newline>'' @ fmt L (dict_get d (lit ''thinking'') (JStr []))
                           @ lit ''\<newline>[/THINKING]'')]
          else if dict_get d (lit ''type'') JNull = JStr (lit ''tool_use'') then
            let tool_name = dict_get d (lit ''name'') (JStr (lit ''Unknown''));
                tool_input = json_dumps L (dict_get d (lit ''input'') (JObj []))
            in texts @ [JStr (lit ''[TOOL: '' @ fmt L tool_name @ lit '']\<newline>'' @ tool_input
                              @ lit ''\<newline>[/TOOL]'')]
          else texts
      | JStr s \<Rightarrow> texts @ [item]
      | _ \<Rightarrow> texts)"

fun extract_loop :: "lib \<Rightarrow> json list \<Rightarrow> json list \<Rightarrow> json list" where
  "extract_loop L [] texts = texts"
| "extract_loop L (item # items) texts = extract_loop L items (extract_item L item texts)"

definition extract_text_content :: "lib \<Rightarrow> json \<Rightarrow> error + pystr" where
  "extract_text_content L content' =
     (case content' of
        JStr s \<Rightarrow> Inr s
      | JArr items \<Rightarrow> join_values (lit ''\<newline>'') (extract_loop L items [])
      | _ \<Rightarrow> Inr [])"

section \<open>render_message_content\<close>

definition spaces :: "nat \<Rightarrow> pystr" where
  "spaces n = replicate n 32"

text \<open>The pieces of the f-string templates around their fields, blanks and line ends included.\<close>

definition text_open :: pystr where
  \<open>text_open = lit ''<div class="text-content">''\<close>

definition div_close :: pystr where
  "div_close = lit ''</div>''"

definition thinking_open :: pystr where
  \<open>thinking_open =
     lit ''\<newline>'' @ spaces 24 @ lit ''<div class="message thinking">\<newline>'' @
     spaces 28 @ lit ''<div class="message-header">\<newline>'' @
     spaces 32 @ lit ''<span>'' @ [128173] @ lit '' Thinking (click to expand)</span>\<newline>'' @
     spaces 28 @ lit ''</div>\<newline>'' @
     spaces 28 @ lit ''<div class="message-content">''\<close>

definition block_close :: pystr where
  "block_close =
     lit ''</div>\<newline>'' @ spaces 24 @ lit ''</div>\<newline>'' @ spaces 20"

definition tool_open :: "pystr \<Rightarrow> pystr" where
  \<open>tool_open header =
     lit ''\<newline>'' @ spaces 24 @ lit ''<div class="tool-call">\<newline>'' @
     spaces 28 @ lit ''<div class="tool-call-header">'' @ header @ lit ''</div>\<newline>'' @
     spaces 28 @ lit ''<div class="tool-call-content">''\<close>

definition truncation_marker :: pystr where
  "truncation_marker = lit ''... (truncated)''"

definition placeholder :: pystr where
  \<open>placeholder = lit ''<div class="text-content">(empty message)</div>''\<close>

text \<open>
  \<^verbatim>\<open>tool_input.get(...)\<close> in the branches for the named tools needs a \<^verbatim>\<open>dict\<close>; the last
  branch takes any value.
\<close>

definition tool_display :: "lib \<Rightarrow> pystr \<Rightarrow> json \<Rightarrow> error + pystr" where
  "tool_display L tool_name tool_input =
     (if tool_name = lit ''Bash'' then
        (case tool_input of
           JObj ti \<Rightarrow>
             let cmd = dict_get ti (lit ''command'') (JStr []);
                 desc = dict_get ti (lit ''description'') (JStr []);
                 display = lit ''$ '' @ fmt L cmd
             in if truthy desc
                then Inr (lit ''# '' @ fmt L desc @ lit ''\<newline>$ '' @ fmt L cmd)
                else Inr display
         | _ \<Rightarrow> Inl AttributeError)
      else if tool_name = lit ''Read'' then
        (case tool_input of
           JObj ti \<Rightarrow> Inr (lit ''Reading: '' @ fmt L (dict_get ti (lit ''file_path'') (JStr [])))
         | _ \<Rightarrow> Inl AttributeError)
      else if tool_name = lit ''Write'' then
        (case tool_input of
           JObj ti \<Rightarrow> Inr (lit ''Writing to: '' @ fmt L (dict_get ti (lit ''file_path'') (JStr [])))
         | _ \<Rightarrow> Inl AttributeError)
      else if tool_name = lit ''Edit'' then
        (case tool_input of
           JObj ti \<Rightarrow> Inr (lit ''Editing: '' @ fmt L (dict_get ti (lit ''file_path'') (JStr [])))
         | _ \<Rightarrow> Inl AttributeError)
      else if tool_name = lit ''Grep'' \<or> tool_name = lit ''Glob'' then
        (case tool_input of
           JObj ti \<Rightarrow>
             let pattern = dict_get ti (lit ''pattern'') (JStr []);
                 path = dict_get ti (lit ''path'') (JStr (lit ''.''))
             in Inr (lit ''Pattern: '' @ fmt L pattern @ lit ''\<newline>Path: '' @ fmt L path)
         | _ \<Rightarrow> Inl AttributeError)
      else if tool_name = lit ''Task'' then
        (case tool_input of
           JObj ti \<Rightarrow>
             Inr (lit ''Agent: '' @ fmt L (dict_get ti (lit ''subagent_type'') (JStr (lit ''unknown'')))
                  @ lit ''\<newline>Task: '' @ fmt L (dict_get ti (lit ''description'') (JStr [])))
         | _ \<Rightarrow> Inl AttributeError)
      else Inr (take 500 (json_dumps L tool_input)))"

text \<open>One pass of the loop body: \<^verbatim>\<open>html_parts\<close> after the item, or the exception.\<close>

definition render_item :: "lib \<Rightarrow> json \<Rightarrow> pystr list \<Rightarrow> error + pystr list" where
  "render_item L item html_parts =
     (case item of
        JObj d \<Rightarrow>
          let item_type = dict_get d (lit ''type'') (JStr []) in
          if item_type = JStr (lit ''text'') then
            (case escape_value (dict_get d (lit ''text'') (JStr [])) of
               Inl e \<Rightarrow> Inl e
             | Inr text \<Rightarrow>
                 Inr (html_parts @
                      [text_open @
                       replace 10 (lit ''<br>'') (sub_inline_code L (sub_code_blocks L text)) @
                       div_close]))
          else if item_type = JStr (lit ''thinking'') then
            (case dict_get d (lit ''thinking'') (JStr []) of
               JStr body \<Rightarrow>
                 let thinking = take 1000 (escape body);
                     thinking = (if length body > 1000
                                 then thinking @ truncation_marker else thinking)
                 in Inr (html_parts @ [thinking_open @ thinking @ block_close])
             | _ \<Rightarrow> Inl AttributeError)
          else if item_type = JStr (lit ''tool_use'') then
            (case escape_value (dict_get d (lit ''name'') (JStr (lit ''Unknown''))) of
               Inl e \<Rightarrow> Inl e
             | Inr tool_name \<Rightarrow>
                 (case tool_display L tool_name (dict_get d (lit ''input'') (JObj [])) of
                    Inl e \<Rightarrow> Inl e
                  | Inr display \<Rightarrow>
                      Inr (html_parts @
                           [tool_open ([128295, 32] @ tool_name) @ escape display @ block_close])))
          else if item_type = JStr (lit ''tool_result'') then
            let shown = fmt L (dict_get d (lit ''content'') (JStr []));
                result = take 1000 shown;
                result = (if length shown > 1000 then result @ truncation_marker else result)
            in Inr (html_parts @
                    [tool_open ([128228] @ lit '' Tool Result'') @ escape result @ block_close])
          else Inr html_parts
      | _ \<Rightarrow> Inr html_parts)"

fun render_loop :: "lib \<Rightarrow> json list \<Rightarrow> pystr list \<Rightarrow> error + pystr list" where
  "render_loop L [] html_parts = Inr html_parts"
| "render_loop L (item # items) html_parts =
     (case render_item L item html_parts of
        Inl e \<Rightarrow> Inl e
      | Inr html_parts' \<Rightarrow> render_loop L items html_parts')"

text \<open>The \<^verbatim>\<open>return\<close> line: the parts joined, or the placeholder when there is none.\<close>

definition finish :: "pystr list \<Rightarrow> pystr" where
  "finish html_parts =
     (if html_parts \<noteq> [] then join (lit ''\<newline>'') html_parts else placeholder)"

definition render_message_content :: "lib \<Rightarrow> json \<Rightarrow> error + pystr" where
  "render_message_content L content' =
     (case content' of
        JStr s \<Rightarrow>
          Inr (finish [text_open @ replace 10 (lit ''<br>'') (escape s) @ div_close])
      | JArr items \<Rightarrow>
          (case render_loop L items [] of
             Inl e \<Rightarrow> Inl e
           | Inr html_parts \<Rightarrow> Inr (finish html_parts))
      | _ \<Rightarrow> Inr (finish []))"

section \<open>get_all_sessions\<close>

text \<open>
  What the file system shows to \<^verbatim>\<open>get_all_sessions\<close>: the entries of the \<^verbatim>\<open>projects\<close>
  directory in the order \<^verbatim>\<open>iterdir\<close> yields them, each with the files
  \<^verbatim>\<open>glob('*.jsonl')\<close> yields, in that order. \<open>stat\<close> is the pair
  \<^verbatim>\<open>(st_mtime, st_size)\<close> and \<open>file_lines\<close> the lines of the file; \<open>None\<close> stands for a
  call that raises \<^verbatim>\<open>OSError\<close>.
\<close>

record session_file =
  stem :: pystr
  path :: pystr
  stat :: "(real \<times> nat) option"
  file_lines :: "line list option"

record project_dir =
  name :: pystr
  is_dir :: bool
  glob_jsonl :: "session_file list"

text \<open>An entry of the catalog; the fields are the keys of the dictionary the source builds.\<close>

record session =
  s_id :: pystr
  s_project :: pystr
  s_path :: pystr
  s_modified :: real
  s_size :: nat
  s_message_count :: nat
  s_preview :: json
  s_summary :: json

text \<open>
  \<^verbatim>\<open>if isinstance(first_msg, list): first_msg = extract_text_content(first_msg)\<close>
\<close>

definition first_text :: "lib \<Rightarrow> json \<Rightarrow> error + json" where
  "first_text L first_msg =
     (case first_msg of
        JArr items \<Rightarrow>
          (case extract_text_content L first_msg of Inl e \<Rightarrow> Inl e | Inr t \<Rightarrow> Inr (JStr t))
      | _ \<Rightarrow> Inr first_msg)"

text \<open>
  \<^verbatim>\<open>first_msg[:150] + '...' if len(first_msg) > 150 else first_msg\<close>. A \<^verbatim>\<open>dict\<close> has a
  length (its number of keys) and cannot be sliced; \<^verbatim>\<open>None\<close>, booleans and numbers have
  no length. A list never arrives here.
\<close>

definition make_preview :: "json \<Rightarrow> error + json" where
  "make_preview first_msg =
     (case first_msg of
        JStr s \<Rightarrow> Inr (JStr (if length s > 150 then take 150 s @ lit ''...'' else s))
      | JObj kvs \<Rightarrow> if length (remdups (map fst kvs)) > 150 then Inl TypeError else Inr first_msg
      | _ \<Rightarrow> Inl TypeError)"

text \<open>
  The body of the inner loop for one file: the entry appended to \<^verbatim>\<open>sessions\<close>, or
  \<open>None\<close> when the file is passed over (its name, no messages, or any exception, which
  \<^verbatim>\<open>except Exception\<close> swallows).
\<close>

definition session_entry ::
  "lib \<Rightarrow> pystr \<Rightarrow> session_file \<Rightarrow> real \<Rightarrow> nat \<Rightarrow> message list \<Rightarrow> session_info \<Rightarrow> session option" where
  "session_entry L project_path session_file st_mtime st_size messages info =
     (case first_text L (content (hd messages)) of
        Inl e \<Rightarrow> None
      | Inr first_msg \<Rightarrow>
          (case make_preview first_msg of
             Inl e \<Rightarrow> None
           | Inr preview \<Rightarrow>
               Some \<lparr>s_id = stem session_file, s_project = project_path,
                     s_path = path session_file, s_modified = st_mtime,
                     s_size = st_size, s_message_count = length messages,
                     s_preview = preview,
                     s_summary = (case summary info of None \<Rightarrow> JStr [] | Some v \<Rightarrow> v)\<rparr>))"

definition session_of_file :: "lib \<Rightarrow> pystr \<Rightarrow> session_file \<Rightarrow> session option" where
  "session_of_file L project_path session_file =
     (if stem session_file = lit ''sessions-index'' then None
      else
        (case stat session_file of
           None \<Rightarrow> None
         | Some (st_mtime, st_size) \<Rightarrow>
             (case file_lines session_file of
                None \<Rightarrow> None
              | Some ls \<Rightarrow>
                  (case parse_session ls of
                     Inl e \<Rightarrow> None
                   | Inr (messages, info) \<Rightarrow>
                       (if messages \<noteq> []
                        then session_entry L project_path session_file st_mtime st_size
                               messages info
                        else None)))))"

fun collect_files :: "lib \<Rightarrow> pystr \<Rightarrow> session_file list \<Rightarrow> session list \<Rightarrow> session list" where
  "collect_files L project_path [] sessions = sessions"
| "collect_files L project_path (f # fs) sessions =
     collect_files L project_path fs
       (case session_of_file L project_path f of
          None \<Rightarrow> sessions
        | Some entry \<Rightarrow> sessions @ [entry])"

fun collect_sessions :: "lib \<Rightarrow> project_dir list \<Rightarrow> session list \<Rightarrow> session list" where
  "collect_sessions L [] sessions = sessions"
| "collect_sessions L (p # ps) sessions =
     collect_sessions L ps
       (if \<not> is_dir p then sessions
        else collect_files L (replace 45 [47] (name p)) (glob_jsonl p) sessions)"

text \<open>
  \<^verbatim>\<open>list.sort(key=..., reverse=True)\<close>: CPython reverses the list, sorts it with its stable
  sort and reverses the result, so that equal keys keep their order. \<open>sort_key\<close> is the
  stable insertion sort of the list library.
\<close>

definition sort_reverse :: "('a \<Rightarrow> 'k::linorder) \<Rightarrow> 'a list \<Rightarrow> 'a list" where
  "sort_reverse key xs = rev (sort_key key (rev xs))"

text \<open>The argument is \<open>None\<close> when the \<^verbatim>\<open>projects\<close> directory does not exist.\<close>

definition get_all_sessions :: "lib \<Rightarrow> project_dir list option \<Rightarrow> session list" where
  "get_all_sessions L projects_dir =
     (case projects_dir of
        None \<Rightarrow> []
      | Some entries \<Rightarrow> sort_reverse s_modified (collect_sessions L entries []))"

section \<open>Notions used to state the properties\<close>

subsection \<open>Transcripts\<close>

text \<open>The decoded records of a transcript, in line order.\<close>

fun records :: "line list \<Rightarrow> json list" where
  "records [] = []"
| "records (Decoded data # ls) = data # records ls"
| "records (Blank # ls) = records ls"
| "records (Malformed # ls) = records ls"

text \<open>A record that takes the \<^verbatim>\<open>summary\<close> branch, and the value that branch stores.\<close>

definition is_summary_record :: "json \<Rightarrow> bool" where
  "is_summary_record data =
     (case data of
        JObj d \<Rightarrow> dict_get d (lit ''type'') JNull = JStr (lit ''summary'')
      | _ \<Rightarrow> False)"

definition summary_value :: "json \<Rightarrow> json" where
  "summary_value data =
     (case data of JObj d \<Rightarrow> dict_get d (lit ''summary'') (JStr []) | _ \<Rightarrow> JStr [])"

definition summary_values :: "line list \<Rightarrow> json list" where
  "summary_values ls = map summary_value (filter is_summary_record (records ls))"

text \<open>
  A record that passes every gate of the loop body and reaches \<^verbatim>\<open>messages.append\<close>: its
  type is neither \<^verbatim>\<open>summary\<close> nor \<^verbatim>\<open>file-history-snapshot\<close>, its \<^verbatim>\<open>message\<close> is a
  non-empty mapping, and the role is \<^verbatim>\<open>user\<close> or \<^verbatim>\<open>assistant\<close>. \<open>message_of\<close> is the
  dictionary appended for it.
\<close>

definition is_message_record :: "json \<Rightarrow> bool" where
  "is_message_record data =
     (case data of
        JObj d \<Rightarrow>
          dict_get d (lit ''type'') JNull \<noteq> JStr (lit ''summary'') \<and>
          dict_get d (lit ''type'') JNull \<noteq> JStr (lit ''file-history-snapshot'') \<and>
          (case dict_get d (lit ''message'') (JObj []) of
             JObj m \<Rightarrow>
               m \<noteq> [] \<and>
               (let r = dict_get m (lit ''role'') (dict_get d (lit ''type'') (JStr []))
                in r = JStr (lit ''user'') \<or> r = JStr (lit ''assistant''))
           | _ \<Rightarrow> False)
      | _ \<Rightarrow> False)"

definition message_of :: "json \<Rightarrow> message" where
  "message_of data =
     (case data of
        JObj d \<Rightarrow>
          (case dict_get d (lit ''message'') (JObj []) of
             JObj m \<Rightarrow>
               \<lparr>role = dict_get m (lit ''role'') (dict_get d (lit ''type'') (JStr [])),
                content = dict_get m (lit ''content'') (JStr []),
                timestamp = dict_get d (lit ''timestamp'') (JStr []),
                uuid = dict_get d (lit ''uuid'') (JStr [])\<rparr>
           | _ \<Rightarrow> \<lparr>role = JNull, content = JNull, timestamp = JNull, uuid = JNull\<rparr>)
      | _ \<Rightarrow> \<lparr>role = JNull, content = JNull, timestamp = JNull, uuid = JNull\<rparr>)"

text \<open>
  A line on which the loop body cannot raise: not decoded, or a JSON object whose
  \<^verbatim>\<open>message\<close>, where the code reaches it, is a mapping or a value that tests false.
\<close>

definition line_ok :: "line \<Rightarrow> bool" where
  "line_ok l =
     (case l of
        Decoded (JObj d) \<Rightarrow>
          dict_get d (lit ''type'') JNull = JStr (lit ''summary'') \<or>
          dict_get d (lit ''type'') JNull = JStr (lit ''file-history-snapshot'') \<or>
          (case dict_get d (lit ''message'') (JObj []) of JObj m \<Rightarrow> True | v \<Rightarrow> \<not> truthy v)
      | Decoded _ \<Rightarrow> False
      | _ \<Rightarrow> True)"

text \<open>
  The resolved role as the specification words it, for any record: \<^verbatim>\<open>message.role\<close>,
  falling back to the record's \<^verbatim>\<open>type\<close>; and the number of records of a transcript
  whose resolved role is \<^verbatim>\<open>user\<close> or \<^verbatim>\<open>assistant\<close>.
\<close>

definition claimed_resolved_role :: "json \<Rightarrow> json" where
  "claimed_resolved_role data =
     (case data of
        JObj d \<Rightarrow>
          (case dict_get d (lit ''message'') (JObj []) of
             JObj m \<Rightarrow> dict_get m (lit ''role'') (dict_get d (lit ''type'') (JStr []))
           | _ \<Rightarrow> dict_get d (lit ''type'') (JStr []))
      | _ \<Rightarrow> JNull)"

definition claimed_message_count :: "line list \<Rightarrow> nat" where
  "claimed_message_count ls =
     length (filter (\<lambda>data. claimed_resolved_role data = JStr (lit ''user'') \<or>
                             claimed_resolved_role data = JStr (lit ''assistant''))
                    (records ls))"

text \<open>The three metadata fields of \<^verbatim>\<open>session_info\<close>, and what one record would store there.\<close>

definition info_meta :: "session_info \<Rightarrow> json option \<times> json option \<times> json option" where
  "info_meta info = (sessionId info, cwd info, version info)"

definition record_meta :: "json \<Rightarrow> json option \<times> json option \<times> json option" where
  "record_meta data =
     (case data of
        JObj d \<Rightarrow>
          (Some (dict_get d (lit ''sessionId'') (JStr [])),
           Some (dict_get d (lit ''cwd'') (JStr [])),
           Some (dict_get d (lit ''version'') (JStr [])))
      | _ \<Rightarrow> (None, None, None))"

definition record_sessionId :: "json \<Rightarrow> json" where
  "record_sessionId data =
     (case data of JObj d \<Rightarrow> dict_get d (lit ''sessionId'') (JStr []) | _ \<Rightarrow> JNull)"

definition capture_meta :: "(pystr \<times> json) list \<Rightarrow> session_info \<Rightarrow> session_info" where
  "capture_meta d info =
     (if \<not> truthy (info_sessionId info) then
        info\<lparr>sessionId := Some (dict_get d (lit ''sessionId'') (JStr [])),
             cwd := Some (dict_get d (lit ''cwd'') (JStr [])),
             version := Some (dict_get d (lit ''version'') (JStr []))\<rparr>
      else info)"

subsection \<open>Content blocks\<close>

text \<open>
  The tagged union of the specification's data model, with the two further kinds of item
  a block list can hold: a bare string, and anything else. \<open>block_of\<close> reads an item of
  the list as a block, with the defaults of the source for missing fields; it is \<open>None\<close>
  for a \<^verbatim>\<open>text\<close> block whose \<^verbatim>\<open>text\<close> is not a string.
\<close>

datatype content_block =
    Text pystr
  | Thinking pystr
  | ToolUse pystr json
  | ToolResult json
  | Bare pystr
  | Unknown

definition block_of :: "lib \<Rightarrow> json \<Rightarrow> content_block option" where
  "block_of L item =
     (case item of
        JStr s \<Rightarrow> Some (Bare s)
      | JObj d \<Rightarrow>
          (case map_of d (lit ''type'') of
             Some (JStr t) \<Rightarrow>
               if t = lit ''text'' then
                 (case map_of d (lit ''text'') of
                    None \<Rightarrow> Some (Text [])
                  | Some (JStr s) \<Rightarrow> Some (Text s)
                  | Some _ \<Rightarrow> None)
               else if t = lit ''thinking'' then
                 Some (Thinking (fmt L (dict_get d (lit ''thinking'') (JStr []))))
               else if t = lit ''tool_use'' then
                 Some (ToolUse (fmt L (dict_get d (lit ''name'') (JStr (lit ''Unknown''))))
                               (dict_get d (lit ''input'') (JObj [])))
               else if t = lit ''tool_result'' then
                 Some (ToolResult (dict_get d (lit ''content'') (JStr [])))
               else Some Unknown
           | _ \<Rightarrow> Some Unknown)
      | _ \<Rightarrow> Some Unknown)"

text \<open>The fragments of plain-text extraction, block by block, as the specification lists them.\<close>

fun spec_plain_fragment :: "lib \<Rightarrow> content_block \<Rightarrow> pystr list" where
  "spec_plain_fragment L (Text t) = [t]"
| "spec_plain_fragment L (Thinking t) = [lit ''[THINKING]\<newline>'' @ t @ lit ''\<newline>[/THINKING]'']"
| "spec_plain_fragment L (ToolUse n i) =
     [lit ''[TOOL: '' @ n @ lit '']\<newline>'' @ json_dumps L i @ lit ''\<newline>[/TOOL]'']"
| "spec_plain_fragment L (Bare s) = [s]"
| "spec_plain_fragment L (ToolResult c) = []"
| "spec_plain_fragment L Unknown = []"

definition spec_extractPlainText :: "lib \<Rightarrow> content_block list \<Rightarrow> pystr" where
  "spec_extractPlainText L blocks =
     join (lit ''\<newline>'') (concat (map (spec_plain_fragment L) blocks))"

text \<open>A content that is a string or a list.\<close>

definition str_or_list :: "json \<Rightarrow> bool" where
  "str_or_list c = (case c of JStr s \<Rightarrow> True | JArr xs \<Rightarrow> True | _ \<Rightarrow> False)"

text \<open>
  An item of a block list in which every field the renderers read is either missing or
  of the type the data model gives it.
\<close>

definition opt_str :: "(pystr \<times> json) list \<Rightarrow> pystr \<Rightarrow> bool" where
  "opt_str d k = (case map_of d k of None \<Rightarrow> True | Some (JStr s) \<Rightarrow> True | Some _ \<Rightarrow> False)"

definition opt_dict :: "(pystr \<times> json) list \<Rightarrow> pystr \<Rightarrow> bool" where
  "opt_dict d k = (case map_of d k of None \<Rightarrow> True | Some (JObj m) \<Rightarrow> True | Some _ \<Rightarrow> False)"

definition item_ok :: "json \<Rightarrow> bool" where
  "item_ok item =
     (case item of
        JObj d \<Rightarrow>
          opt_str d (lit ''text'') \<and> opt_str d (lit ''thinking'') \<and>
          opt_str d (lit ''name'') \<and> opt_dict d (lit ''input'')
      | _ \<Rightarrow> True)"

text \<open>The body of a \<^verbatim>\<open>Bash\<close> tool call as the specification words it.\<close>

definition spec_bash_body :: "lib \<Rightarrow> (pystr \<times> json) list \<Rightarrow> pystr" where
  "spec_bash_body L ti =
     (if truthy (dict_get ti (lit ''description'') (JStr []))
      then lit ''# '' @ fmt L (dict_get ti (lit ''description'') (JStr [])) @ lit ''\<newline>'' @
           lit ''$ '' @ fmt L (dict_get ti (lit ''command'') (JStr []))
      else lit ''$ '' @ fmt L (dict_get ti (lit ''command'') (JStr [])))"

subsection \<open>The catalog\<close>

text \<open>
  The catalog entries in discovery order: directory by directory as \<^verbatim>\<open>iterdir\<close> yields
  them, and within a directory file by file as \<^verbatim>\<open>glob\<close> yields them, leaving out the
  files that give no entry.
\<close>

definition discovered :: "lib \<Rightarrow> project_dir list \<Rightarrow> session list" where
  "discovered L entries =
     concat (map (\<lambda>p. if is_dir p
                         then List.map_filter (session_of_file L (replace 45 [47] (name p)))
                                (glob_jsonl p)
                         else [])
                 entries)"

subsection \<open>Example inputs\<close>

text \<open>
  A library instance for the examples: the two substitutions leave a text without
  backquotes as it is, which is what \<^verbatim>\<open>re.sub\<close> does, and no result stated in an
  example depends on \<open>json_dumps\<close> or \<open>py_str\<close>.
\<close>

definition example_lib :: lib where
  "example_lib =
     \<lparr>json_dumps = (\<lambda>v. []), py_str = (\<lambda>v. []), sub_code_blocks = (\<lambda>s. s),
      sub_inline_code = (\<lambda>s. s)\<rparr>"

text \<open>\<^verbatim>\<open>{"type": "summary", "summary": s}\<close>\<close>

definition summary_line :: "string \<Rightarrow> line" where
  "summary_line s =
     Decoded (JObj [(lit ''type'', JStr (lit ''summary'')), (lit ''summary'', JStr (lit s))])"

text \<open>
  \<^verbatim>\<open>{"type": r, "message": {"role": r, "content": text}, "sessionId": sid, "cwd": dir,
  "version": ver}\<close>
\<close>

definition chat_line :: "string \<Rightarrow> string \<Rightarrow> string \<Rightarrow> string \<Rightarrow> string \<Rightarrow> line" where
  "chat_line r text sid dir ver =
     Decoded (JObj [(lit ''type'', JStr (lit r)),
                    (lit ''message'', JObj [(lit ''role'', JStr (lit r)),
                                            (lit ''content'', JStr (lit text))]),
                    (lit ''sessionId'', JStr (lit sid)),
                    (lit ''cwd'', JStr (lit dir)),
                    (lit ''version'', JStr (lit ver))])"

text \<open>
  \<^verbatim>\<open>{"type": "file-history-snapshot", "message": {"role": "user", "content": "x"}}\<close>
\<close>

definition snapshot_line :: line where
  "snapshot_line =
     Decoded (JObj [(lit ''type'', JStr (lit ''file-history-snapshot'')),
                    (lit ''message'', JObj [(lit ''role'', JStr (lit ''user'')),
                                            (lit ''content'', JStr (lit ''x''))])])"

text \<open>\<^verbatim>\<open>{"type": "thinking", "thinking": body}\<close>\<close>

definition thinking_block :: "pystr \<Rightarrow> json" where
  "thinking_block body =
     JObj [(lit ''type'', JStr (lit ''thinking'')), (lit ''thinking'', JStr body)]"

text \<open>\<^verbatim>\<open>{"type": "text", "text": t}\<close>\<close>

definition text_block :: "string \<Rightarrow> json" where
  "text_block t = JObj [(lit ''type'', JStr (lit ''text'')), (lit ''text'', JStr (lit t))]"

text \<open>
  \<^verbatim>\<open>{"type": "tool_use", "name": "Bash", "input": {"command": c, "description": d}}\<close>
\<close>

definition bash_input :: "string \<Rightarrow> string \<Rightarrow> (pystr \<times> json) list" where
  "bash_input c d = [(lit ''command'', JStr (lit c)), (lit ''description'', JStr (lit d))]"

definition bash_block :: "string \<Rightarrow> string \<Rightarrow> (pystr \<times> json) list" where
  "bash_block c d =
     [(lit ''type'', JStr (lit ''tool_use'')), (lit ''name'', JStr (lit ''Bash'')),
      (lit ''input'', JObj (bash_input c d))]"

section \<open>Properties of parse_session\<close>

subsection \<open>One record\<close>

lemma message_record_obj:
  "is_message_record data \<Longrightarrow> \<exists>d. data = JObj d"
  by (cases data) (simp_all add: is_message_record_def)

lemma message_record_not_summary:
  "is_message_record data \<Longrightarrow> \<not> is_summary_record data"
  by (cases data) (simp_all add: is_message_record_def is_summary_record_def)

lemma handle_record_summary_eq:
  "is_summary_record data \<Longrightarrow>
   handle_record data st = Inr (fst st, (snd st)\<lparr>summary := Some (summary_value data)\<rparr>)"
  by (cases data) (simp_all add: is_summary_record_def handle_record_def summary_value_def)

lemma handle_record_message_eq:
  assumes "is_message_record (JObj d)"
  shows "handle_record (JObj d) st =
         Inr (fst st @ [message_of (JObj d)], capture_meta d (snd st))"
proof (cases "dict_get d (lit ''message'') (JObj [])")
  case (JObj m)
  with assms show ?thesis
    by (simp add: is_message_record_def handle_record_def message_of_def capture_meta_def Let_def)
qed (use assms in \<open>simp_all add: is_message_record_def\<close>)

lemma handle_record_other_eq:
  assumes "\<not> is_summary_record data" and "\<not> is_message_record data"
    and "handle_record data st = Inr st'"
  shows "st' = st"
proof (cases data)
  case (JObj d)
  show ?thesis
  proof (cases "dict_get d (lit ''message'') (JObj [])")
    case (JObj m)
    with assms \<open>data = JObj d\<close> show ?thesis
      by (simp add: is_message_record_def is_summary_record_def handle_record_def Let_def
               split: if_splits)
  qed (use assms \<open>data = JObj d\<close> in
        \<open>simp_all add: is_summary_record_def handle_record_def Let_def split: if_splits\<close>)
qed (use assms in \<open>simp_all add: handle_record_def\<close>)

lemma handle_record_ok:
  assumes "line_ok (Decoded data)"
  shows "\<exists>st'. handle_record data st = Inr st'"
proof (cases data)
  case (JObj d)
  show ?thesis
  proof (cases "dict_get d (lit ''message'') (JObj [])")
    case (JObj m)
    with \<open>data = JObj d\<close> show ?thesis
      by (simp add: handle_record_def Let_def)
  qed (use assms \<open>data = JObj d\<close> in \<open>auto simp add: line_ok_def handle_record_def Let_def\<close>)
qed (use assms in \<open>simp_all add: line_ok_def\<close>)

lemma handle_record_messages:
  assumes "handle_record data (ms, i) = Inr (ms', i')"
  shows "ms' = (if is_message_record data then ms @ [message_of data] else ms)"
proof (cases "is_message_record data")
  case True
  then obtain d where d: "data = JObj d" using message_record_obj by blast
  from handle_record_message_eq [of d "(ms, i)"] True assms d show ?thesis by simp
next
  case False
  show ?thesis
  proof (cases "is_summary_record data")
    case True
    from handle_record_summary_eq [OF True, of "(ms, i)"] assms False show ?thesis by simp
  next
    case s: False
    from handle_record_other_eq [OF s False assms] False show ?thesis by simp
  qed
qed

lemma handle_record_summary:
  assumes "handle_record data (ms, i) = Inr (ms', i')"
  shows "summary i' = (if is_summary_record data then Some (summary_value data) else summary i)"
proof (cases "is_message_record data")
  case True
  then obtain d where d: "data = JObj d" using message_record_obj by blast
  from handle_record_message_eq [of d "(ms, i)"] True assms d
    message_record_not_summary [OF True]
  show ?thesis by (auto simp: capture_meta_def)
next
  case False
  show ?thesis
  proof (cases "is_summary_record data")
    case True
    from handle_record_summary_eq [OF True, of "(ms, i)"] assms True show ?thesis by auto
  next
    case s: False
    from handle_record_other_eq [OF s False assms] s show ?thesis by simp
  qed
qed

lemma handle_record_meta_kept:
  assumes "handle_record data (ms, i) = Inr (ms', i')"
    and "truthy (info_sessionId i) \<or> \<not> is_message_record data"
  shows "info_meta i' = info_meta i"
proof (cases "is_message_record data")
  case True
  then obtain d where d: "data = JObj d" using message_record_obj by blast
  from True assms(2) have t: "truthy (info_sessionId i)" by simp
  from handle_record_message_eq [of d "(ms, i)"] True assms(1) t d
  show ?thesis by (auto simp: capture_meta_def)
next
  case False
  show ?thesis
  proof (cases "is_summary_record data")
    case True
    from handle_record_summary_eq [OF True, of "(ms, i)"] assms(1) show ?thesis
      by (auto simp: info_meta_def)
  next
    case s: False
    from handle_record_other_eq [OF s False assms(1)] show ?thesis by simp
  qed
qed

lemma handle_record_meta_captured:
  assumes "handle_record data (ms, i) = Inr (ms', i')"
    and "\<not> truthy (info_sessionId i)" and "is_message_record data"
  shows "info_meta i' = record_meta data"
proof -
  from message_record_obj [OF assms(3)] obtain d where d: "data = JObj d" ..
  from handle_record_message_eq [of d "(ms, i)"] assms d
  show ?thesis by (auto simp: capture_meta_def info_meta_def record_meta_def)
qed

lemma info_sessionId_meta:
  "info_meta i' = info_meta i \<Longrightarrow> info_sessionId i' = info_sessionId i"
  by (simp add: info_meta_def info_sessionId_def)

subsection \<open>The loop\<close>

lemma parse_lines_append:
  "parse_lines (xs @ ys) st =
     (case parse_lines xs st of Inl e \<Rightarrow> Inl e | Inr st' \<Rightarrow> parse_lines ys st')"
  by (induction xs st rule: parse_lines.induct) (auto split: sum.splits)

lemma parse_lines_messages:
  "parse_lines ls (ms, i) = Inr (ms', i') \<Longrightarrow>
   ms' = ms @ map message_of (filter is_message_record (records ls))"
proof (induction ls arbitrary: ms i)
  case Nil
  then show ?case by simp
next
  case (Cons l ls)
  show ?case
  proof (cases l)
    case (Decoded data)
    with Cons.prems obtain ms1 i1 where
      h: "handle_record data (ms, i) = Inr (ms1, i1)" and
      r: "parse_lines ls (ms1, i1) = Inr (ms', i')"
      by (auto split: sum.splits)
    from handle_record_messages [OF h] Cons.IH [OF r] Decoded show ?thesis
      by simp
  qed (use Cons in auto)
qed

lemma parse_lines_ok:
  "\<forall>l \<in> set ls. line_ok l \<Longrightarrow> \<exists>st'. parse_lines ls st = Inr st'"
proof (induction ls arbitrary: st)
  case Nil
  then show ?case by simp
next
  case (Cons l ls)
  show ?case
  proof (cases l)
    case (Decoded data)
    with Cons.prems have "line_ok (Decoded data)" by simp
    then obtain st1 where "handle_record data st = Inr st1"
      using handle_record_ok by blast
    with Cons.IH [of st1] Cons.prems Decoded show ?thesis by simp
  qed (use Cons in auto)
qed

lemma parse_lines_summary:
  "parse_lines ls (ms, i) = Inr (ms', i') \<Longrightarrow>
   summary i' = (if summary_values ls = [] then summary i else Some (last (summary_values ls)))"
proof (induction ls arbitrary: ms i)
  case Nil
  then show ?case by (simp add: summary_values_def)
next
  case (Cons l ls)
  show ?case
  proof (cases l)
    case (Decoded data)
    with Cons.prems obtain ms1 i1 where
      h: "handle_record data (ms, i) = Inr (ms1, i1)" and
      r: "parse_lines ls (ms1, i1) = Inr (ms', i')"
      by (auto split: sum.splits)
    from handle_record_summary [OF h] Cons.IH [OF r] Decoded show ?thesis
      by (simp add: summary_values_def)
  qed (use Cons in \<open>auto simp: summary_values_def\<close>)
qed

lemma parse_lines_meta_kept:
  "parse_lines ls (ms, i) = Inr (ms', i') \<Longrightarrow> truthy (info_sessionId i) \<Longrightarrow>
   info_meta i' = info_meta i"
proof (induction ls arbitrary: ms i)
  case Nil
  then show ?case by simp
next
  case (Cons l ls)
  show ?case
  proof (cases l)
    case (Decoded data)
    with Cons.prems obtain ms1 i1 where
      h: "handle_record data (ms, i) = Inr (ms1, i1)" and
      r: "parse_lines ls (ms1, i1) = Inr (ms', i')"
      by (auto split: sum.splits)
    from handle_record_meta_kept [OF h] Cons.prems(2)
    have k: "info_meta i1 = info_meta i" by simp
    with Cons.prems(2) have "truthy (info_sessionId i1)"
      using info_sessionId_meta [OF k] by simp
    from Cons.IH [OF r this] k show ?thesis by simp
  qed (use Cons in auto)
qed

lemma record_meta_sessionId:
  "is_message_record data \<Longrightarrow> info_meta i = record_meta data \<Longrightarrow>
   info_sessionId i = record_sessionId data"
  by (cases data)
     (simp_all add: is_message_record_def info_meta_def record_meta_def info_sessionId_def
                    record_sessionId_def)

lemma parse_lines_meta_first:
  "parse_lines ls (ms, i) = Inr (ms', i') \<Longrightarrow> \<not> truthy (info_sessionId i) \<Longrightarrow>
   List.find is_message_record (records ls) = Some data \<Longrightarrow>
   truthy (record_sessionId data) \<Longrightarrow>
   info_meta i' = record_meta data"
proof (induction ls arbitrary: ms i)
  case Nil
  then show ?case by simp
next
  case (Cons l ls)
  show ?case
  proof (cases l)
    case (Decoded r)
    with Cons.prems obtain ms1 i1 where
      h: "handle_record r (ms, i) = Inr (ms1, i1)" and
      rest: "parse_lines ls (ms1, i1) = Inr (ms', i')"
      by (auto split: sum.splits)
    show ?thesis
    proof (cases "is_message_record r")
      case True
      with Cons.prems(3) Decoded have eq: "r = data" by simp
      from handle_record_meta_captured [OF h Cons.prems(2) True]
      have c: "info_meta i1 = record_meta data" using eq by simp
      with True eq have "info_sessionId i1 = record_sessionId data"
        by (simp add: record_meta_sessionId)
      with Cons.prems(4) have "truthy (info_sessionId i1)" by simp
      from parse_lines_meta_kept [OF rest this] c show ?thesis by simp
    next
      case False
      with handle_record_meta_kept [OF h] have k: "info_meta i1 = info_meta i" by simp
      with Cons.prems(2) have n: "\<not> truthy (info_sessionId i1)"
        using info_sessionId_meta [OF k] by simp
      from False Cons.prems(3) Decoded
      have "List.find is_message_record (records ls) = Some data" by simp
      from Cons.IH [OF rest n this Cons.prems(4)] show ?thesis .
    qed
  qed (use Cons in auto)
qed

lemmas example_defs =
  parse_session_def handle_record_def dict_get_def lit_def empty_info_def
  info_sessionId_def summary_line_def chat_line_def snapshot_line_def

subsection \<open>Claims about parse_session\<close>

text \<open>
  C1, as the code has it. The summary that \<open>parse_session\<close> returns is the value of the
  \<^emph>\<open>last\<close> record whose type is \<^verbatim>\<open>summary\<close> (the empty string when that record has no
  \<^verbatim>\<open>summary\<close> field), and there is none when the transcript has no such record: every
  summary record overwrites the one before. The messages come from the other records only,
  so a summary record produces no message.
\<close>

theorem summary_last_wins:
  assumes "parse_session ls = Inr (msgs, info)"
  shows "summary info =
           (if summary_values ls = [] then None else Some (last (summary_values ls))) \<and>
         msgs = map message_of
                  (filter is_message_record
                     (filter (\<lambda>data. \<not> is_summary_record data) (records ls)))"
proof -
  have f: "filter is_message_record (filter (\<lambda>data. \<not> is_summary_record data) xs) =
           filter is_message_record xs" for xs
    by (induction xs) (auto dest: message_record_not_summary)
  from assms have p: "parse_lines ls ([], empty_info) = Inr (msgs, info)"
    by (simp add: parse_session_def)
  from parse_lines_summary [OF p] have "summary info =
      (if summary_values ls = [] then None else Some (last (summary_values ls)))"
    by (simp add: empty_info_def)
  moreover from parse_lines_messages [OF p] f
  have "msgs = map message_of
                 (filter is_message_record
                    (filter (\<lambda>data. \<not> is_summary_record data) (records ls)))"
    by simp
  ultimately show ?thesis by simp
qed

theorem summary_last_wins_witness:
  "parse_session [summary_line ''A'', chat_line ''user'' ''hi'' ''s1'' ''/a'' ''1'',
                  summary_line ''B''] =
     Inr ([\<lparr>role = JStr (lit ''user''), content = JStr (lit ''hi''), timestamp = JStr [],
            uuid = JStr []\<rparr>],
          \<lparr>summary = Some (JStr (lit ''B'')), sessionId = Some (JStr (lit ''s1'')),
           cwd = Some (JStr (lit ''/a'')), version = Some (JStr (lit ''1''))\<rparr>) \<and>
   summary_values [summary_line ''A'', chat_line ''user'' ''hi'' ''s1'' ''/a'' ''1'',
                   summary_line ''B''] = [JStr (lit ''A''), JStr (lit ''B'')]"
proof -
  have h: "parse_session [summary_line ''A'', chat_line ''user'' ''hi'' ''s1'' ''/a'' ''1'',
                          summary_line ''B''] =
     Inr ([\<lparr>role = JStr (lit ''user''), content = JStr (lit ''hi''), timestamp = JStr [],
            uuid = JStr []\<rparr>],
          \<lparr>summary = Some (JStr (lit ''B'')), sessionId = Some (JStr (lit ''s1'')),
           cwd = Some (JStr (lit ''/a'')), version = Some (JStr (lit ''1''))\<rparr>)"
    by (simp add: example_defs)
  have v: "summary_values [summary_line ''A'', chat_line ''user'' ''hi'' ''s1'' ''/a'' ''1'',
                   summary_line ''B''] = [JStr (lit ''A''), JStr (lit ''B'')]"
    by (simp add: summary_values_def is_summary_record_def summary_value_def example_defs)
  from summary_last_wins [OF h] h v show ?thesis by simp
qed

text \<open>
  C1 as stated fails: with two summary records the summary returned is the second value,
  not the first.
\<close>

theorem summary_first_wins_counterexample:
  "parse_session [summary_line ''A'', summary_line ''B''] =
     Inr ([], empty_info\<lparr>summary := Some (JStr (lit ''B''))\<rparr>) \<and>
   JStr (lit ''B'') \<noteq> JStr (lit ''A'')"
  by (simp add: example_defs)

text \<open>
  C3. When the first record that produces a message carries a \<^verbatim>\<open>sessionId\<close> that tests
  true (for a string: is not empty), then \<^verbatim>\<open>sessionId\<close>, \<^verbatim>\<open>cwd\<close> and \<^verbatim>\<open>version\<close> of the
  result are the values of that record (the empty string for a field it lacks). They have
  these values as soon as any prefix of the transcript containing that record has been
  read, and still have them at the end, whatever the later lines \<open>ls2\<close> carry.
\<close>

theorem metadata_first_wins:
  assumes "parse_session (ls1 @ ls2) = Inr (msgs, info)"
    and "List.find is_message_record (records ls1) = Some data"
    and "truthy (record_sessionId data)"
  shows "\<exists>msgs1 info1. parse_session ls1 = Inr (msgs1, info1) \<and>
           info_meta info1 = record_meta data \<and> info_meta info = record_meta data"
proof -
  from assms(1) obtain msgs1 info1 where
    p1: "parse_lines ls1 ([], empty_info) = Inr (msgs1, info1)" and
    p2: "parse_lines ls2 (msgs1, info1) = Inr (msgs, info)"
    by (auto simp: parse_session_def parse_lines_append split: sum.splits)
  have n: "\<not> truthy (info_sessionId empty_info)"
    by (simp add: info_sessionId_def empty_info_def)
  from parse_lines_meta_first [OF p1 n assms(2,3)]
  have m1: "info_meta info1 = record_meta data" .
  from assms(2) have "is_message_record data"
    by (auto simp: find_Some_iff)
  from record_meta_sessionId [OF this m1] assms(3)
  have "truthy (info_sessionId info1)" by simp
  from parse_lines_meta_kept [OF p2 this] m1
  have "info_meta info = record_meta data" by simp
  with p1 m1 show ?thesis by (simp add: parse_session_def)
qed

theorem metadata_first_wins_witness:
  "parse_session ([summary_line ''A'', chat_line ''user'' ''hi'' ''s1'' ''/a'' ''1''] @
                  [chat_line ''assistant'' ''yo'' ''s2'' ''/b'' ''2'']) =
     Inr ([\<lparr>role = JStr (lit ''user''), content = JStr (lit ''hi''), timestamp = JStr [],
            uuid = JStr []\<rparr>,
           \<lparr>role = JStr (lit ''assistant''), content = JStr (lit ''yo''), timestamp = JStr [],
            uuid = JStr []\<rparr>],
          \<lparr>summary = Some (JStr (lit ''A'')), sessionId = Some (JStr (lit ''s1'')),
           cwd = Some (JStr (lit ''/a'')), version = Some (JStr (lit ''1''))\<rparr>) \<and>
   List.find is_message_record
     (records [summary_line ''A'', chat_line ''user'' ''hi'' ''s1'' ''/a'' ''1'']) =
     Some (JObj [(lit ''type'', JStr (lit ''user'')),
                 (lit ''message'', JObj [(lit ''role'', JStr (lit ''user'')),
                                         (lit ''content'', JStr (lit ''hi''))]),
                 (lit ''sessionId'', JStr (lit ''s1'')),
                 (lit ''cwd'', JStr (lit ''/a'')),
                 (lit ''version'', JStr (lit ''1''))]) \<and>
   (\<exists>msgs1 info1.
      parse_session [summary_line ''A'', chat_line ''user'' ''hi'' ''s1'' ''/a'' ''1''] =
        Inr (msgs1, info1) \<and>
      info_meta info1 =
        (Some (JStr (lit ''s1'')), Some (JStr (lit ''/a'')), Some (JStr (lit ''1''))))"
proof -
  let ?d = "JObj [(lit ''type'', JStr (lit ''user'')),
                 (lit ''message'', JObj [(lit ''role'', JStr (lit ''user'')),
                                         (lit ''content'', JStr (lit ''hi''))]),
                 (lit ''sessionId'', JStr (lit ''s1'')),
                 (lit ''cwd'', JStr (lit ''/a'')),
                 (lit ''version'', JStr (lit ''1''))]"
  have h: "parse_session ([summary_line ''A'', chat_line ''user'' ''hi'' ''s1'' ''/a'' ''1''] @
                  [chat_line ''assistant'' ''yo'' ''s2'' ''/b'' ''2'']) =
     Inr ([\<lparr>role = JStr (lit ''user''), content = JStr (lit ''hi''), timestamp = JStr [],
            uuid = JStr []\<rparr>,
           \<lparr>role = JStr (lit ''assistant''), content = JStr (lit ''yo''), timestamp = JStr [],
            uuid = JStr []\<rparr>],
          \<lparr>summary = Some (JStr (lit ''A'')), sessionId = Some (JStr (lit ''s1'')),
           cwd = Some (JStr (lit ''/a'')), version = Some (JStr (lit ''1''))\<rparr>)"
    by (simp add: example_defs)
  have f: "List.find is_message_record
     (records [summary_line ''A'', chat_line ''user'' ''hi'' ''s1'' ''/a'' ''1'']) = Some ?d"
    by (simp add: is_message_record_def example_defs)
  have t: "truthy (record_sessionId ?d)"
    by (simp add: record_sessionId_def dict_get_def lit_def)
  have r: "record_meta ?d =
        (Some (JStr (lit ''s1'')), Some (JStr (lit ''/a'')), Some (JStr (lit ''1'')))"
    by (simp add: record_meta_def dict_get_def lit_def)
  from metadata_first_wins [OF h f t] h f r show ?thesis by auto
qed

text \<open>
  C4, as the code has it. On a transcript in which every decoded line is a JSON object
  whose \<^verbatim>\<open>message\<close>, where the code reaches it, is a mapping or tests false,
  \<open>parse_session\<close> returns, and its messages are exactly those of the records that pass
  every gate (type neither \<^verbatim>\<open>summary\<close> nor \<^verbatim>\<open>file-history-snapshot\<close>, non-empty
  \<^verbatim>\<open>message\<close>, role \<^verbatim>\<open>user\<close> or \<^verbatim>\<open>assistant\<close>), one message per such record, in
  line order.
\<close>

theorem messages_in_line_order:
  assumes "\<forall>l \<in> set ls. line_ok l"
  shows "\<exists>info. parse_session ls =
           Inr (map message_of (filter is_message_record (records ls)), info)"
proof -
  from parse_lines_ok [OF assms, of "([], empty_info)"]
  obtain msgs info where p: "parse_lines ls ([], empty_info) = Inr (msgs, info)"
    by (cases) auto
  from parse_lines_messages [OF p] p show ?thesis
    by (simp add: parse_session_def)
qed

theorem messages_in_line_order_witness:
  "list_all line_ok [chat_line ''user'' ''hi'' ''s1'' ''/a'' ''1'', Malformed, snapshot_line,
                     chat_line ''assistant'' ''yo'' ''s1'' ''/a'' ''1''] \<and>
   (\<exists>info. parse_session [chat_line ''user'' ''hi'' ''s1'' ''/a'' ''1'', Malformed,
                           snapshot_line, chat_line ''assistant'' ''yo'' ''s1'' ''/a'' ''1''] =
      Inr ([\<lparr>role = JStr (lit ''user''), content = JStr (lit ''hi''), timestamp = JStr [],
             uuid = JStr []\<rparr>,
            \<lparr>role = JStr (lit ''assistant''), content = JStr (lit ''yo''),
             timestamp = JStr [], uuid = JStr []\<rparr>], info))"
proof -
  let ?ls = "[chat_line ''user'' ''hi'' ''s1'' ''/a'' ''1'', Malformed, snapshot_line,
              chat_line ''assistant'' ''yo'' ''s1'' ''/a'' ''1'']"
  have h: "\<forall>l \<in> set ?ls. line_ok l"
    by (simp add: line_ok_def example_defs)
  have m: "map message_of (filter is_message_record (records ?ls)) =
      [\<lparr>role = JStr (lit ''user''), content = JStr (lit ''hi''), timestamp = JStr [],
             uuid = JStr []\<rparr>,
            \<lparr>role = JStr (lit ''assistant''), content = JStr (lit ''yo''),
             timestamp = JStr [], uuid = JStr []\<rparr>]"
    by (simp add: is_message_record_def message_of_def example_defs)
  from messages_in_line_order [OF h] h m show ?thesis by (simp add: list_all_iff)
qed

text \<open>
  C4 as stated fails. A snapshot record whose \<^verbatim>\<open>message.role\<close> is \<^verbatim>\<open>user\<close> has the
  resolved role \<^verbatim>\<open>user\<close> and yields no message; and a line that is valid JSON but not
  an object (here \<^verbatim>\<open>[]\<close>) makes \<open>parse_session\<close> raise.
\<close>

theorem resolved_role_count_counterexample:
  "parse_session [snapshot_line] = Inr ([], empty_info) \<and>
   claimed_message_count [snapshot_line] = 1 \<and>
   parse_session [Decoded (JArr [])] = Inl AttributeError"
  by (simp add: example_defs claimed_message_count_def claimed_resolved_role_def)

lemma records_append: "records (xs @ ys) = records xs @ records ys"
  by (induction xs rule: records.induct) simp_all

text \<open>
  C5, as the code has it. A line that \<^verbatim>\<open>json.loads\<close> rejects with \<^verbatim>\<open>JSONDecodeError\<close>
  never changes the outcome: the result for the transcript, whether a value or an
  exception raised by another line, is the result for the transcript without that line.
  When every other line is one on which the loop body cannot raise (blank, rejected, or
  a JSON object whose \<^verbatim>\<open>message\<close>, where the code reaches it, is a mapping or tests
  false), \<open>parse_session\<close> returns: the rejected line is dropped, and the messages are
  those of the records before and after it, in line order.
\<close>

theorem malformed_line_dropped:
  "parse_session (pre @ Malformed # post) = parse_session (pre @ post) \<and>
   (list_all line_ok (pre @ post) \<longrightarrow>
      (\<exists>info. parse_session (pre @ Malformed # post) =
                Inr (map message_of
                       (filter is_message_record (records pre @ records post)), info) \<and>
              parse_session (pre @ post) =
                Inr (map message_of
                       (filter is_message_record (records pre @ records post)), info)))"
proof (intro conjI impI)
  show eq: "parse_session (pre @ Malformed # post) = parse_session (pre @ post)"
    by (simp add: parse_session_def parse_lines_append split: sum.splits)
  assume "list_all line_ok (pre @ post)"
  then have "\<forall>l \<in> set (pre @ post). line_ok l"
    by (simp add: list_all_iff)
  from parse_lines_ok [OF this, of "([], empty_info)"]
  obtain msgs info where p: "parse_lines (pre @ post) ([], empty_info) = Inr (msgs, info)"
    by (cases) auto
  from parse_lines_messages [OF p]
  have "msgs = map message_of (filter is_message_record (records pre @ records post))"
    by (simp add: records_append)
  with p have "parse_session (pre @ post) =
      Inr (map message_of (filter is_message_record (records pre @ records post)), info)"
    by (simp add: parse_session_def)
  with eq show "\<exists>info. parse_session (pre @ Malformed # post) =
                Inr (map message_of
                       (filter is_message_record (records pre @ records post)), info) \<and>
              parse_session (pre @ post) =
                Inr (map message_of
                       (filter is_message_record (records pre @ records post)), info)"
    by simp
qed

theorem malformed_line_dropped_witness:
  "list_all line_ok ([chat_line ''user'' ''hi'' ''s1'' ''/a'' ''1''] @
                     [chat_line ''assistant'' ''yo'' ''s2'' ''/b'' ''2'']) \<and>
   parse_session ([chat_line ''user'' ''hi'' ''s1'' ''/a'' ''1''] @ Malformed #
                  [chat_line ''assistant'' ''yo'' ''s2'' ''/b'' ''2'']) =
     Inr ([\<lparr>role = JStr (lit ''user''), content = JStr (lit ''hi''), timestamp = JStr [],
            uuid = JStr []\<rparr>,
           \<lparr>role = JStr (lit ''assistant''), content = JStr (lit ''yo''), timestamp = JStr [],
            uuid = JStr []\<rparr>],
          \<lparr>summary = None, sessionId = Some (JStr (lit ''s1'')),
           cwd = Some (JStr (lit ''/a'')), version = Some (JStr (lit ''1''))\<rparr>) \<and>
   parse_session ([chat_line ''user'' ''hi'' ''s1'' ''/a'' ''1''] @
                  [chat_line ''assistant'' ''yo'' ''s2'' ''/b'' ''2'']) =
     parse_session ([chat_line ''user'' ''hi'' ''s1'' ''/a'' ''1''] @ Malformed #
                    [chat_line ''assistant'' ''yo'' ''s2'' ''/b'' ''2''])"
proof -
  let ?pre = "[chat_line ''user'' ''hi'' ''s1'' ''/a'' ''1'']"
  let ?post = "[chat_line ''assistant'' ''yo'' ''s2'' ''/b'' ''2'']"
  have ok: "list_all line_ok (?pre @ ?post)"
    by (simp add: line_ok_def example_defs)
  have v: "parse_session (?pre @ ?post) =
     Inr ([\<lparr>role = JStr (lit ''user''), content = JStr (lit ''hi''), timestamp = JStr [],
            uuid = JStr []\<rparr>,
           \<lparr>role = JStr (lit ''assistant''), content = JStr (lit ''yo''), timestamp = JStr [],
            uuid = JStr []\<rparr>],
          \<lparr>summary = None, sessionId = Some (JStr (lit ''s1'')),
           cwd = Some (JStr (lit ''/a'')), version = Some (JStr (lit ''1''))\<rparr>)"
    by (simp add: example_defs)
  from malformed_line_dropped [of ?pre ?post] ok v show ?thesis
    by (simp only:)
qed

text \<open>
  C5 as stated fails: a transcript with a rejected line can still raise, on another line
  that is valid JSON but not an object (here \<^verbatim>\<open>[]\<close>).
\<close>

theorem malformed_transcript_raises_counterexample:
  "parse_session [Malformed, Decoded (JArr [])] = Inl AttributeError"
  by (simp add: parse_session_def handle_record_def)

section \<open>Properties of extract_text_content\<close>

lemma lit_distinct_types:
  "lit ''text'' \<noteq> lit ''thinking''" "lit ''text'' \<noteq> lit ''tool_use''"
  "lit ''text'' \<noteq> lit ''tool_result''" "lit ''thinking'' \<noteq> lit ''tool_use''"
  "lit ''thinking'' \<noteq> lit ''tool_result''" "lit ''tool_use'' \<noteq> lit ''tool_result''"
  "lit ''thinking'' \<noteq> lit ''text''" "lit ''tool_use'' \<noteq> lit ''text''"
  "lit ''tool_result'' \<noteq> lit ''text''" "lit ''tool_use'' \<noteq> lit ''thinking''"
  "lit ''tool_result'' \<noteq> lit ''thinking''" "lit ''tool_result'' \<noteq> lit ''tool_use''"
  by (simp_all add: lit_def)

lemma strs_of_append:
  "strs_of (xs @ ys) =
     (case strs_of xs of
        None \<Rightarrow> None
      | Some a \<Rightarrow> (case strs_of ys of None \<Rightarrow> None | Some b \<Rightarrow> Some (a @ b)))"
  by (induction xs rule: strs_of.induct) (auto split: option.splits)

lemma strs_of_snoc:
  "strs_of xs = Some ts \<Longrightarrow> strs_of (xs @ [JStr s]) = Some (ts @ [s])"
  by (simp add: strs_of_append)

lemma strs_of_map_JStr: "strs_of (map JStr ss) = Some ss"
  by (induction ss) simp_all

lemma dict_get_eq_JStr:
  "dict_get d k JNull = JStr x \<longleftrightarrow> map_of d k = Some (JStr x)"
  by (simp add: dict_get_def split: option.splits)

lemma extract_item_block:
  assumes "block_of L item = Some b" and "strs_of texts = Some ts"
  shows "strs_of (extract_item L item texts) = Some (ts @ spec_plain_fragment L b)"
proof (cases item)
  case (JObj d)
  show ?thesis
  proof (cases "map_of d (lit ''type'')")
    case None
    with assms JObj show ?thesis
      by (auto simp: block_of_def extract_item_def dict_get_eq_JStr)
  next
    case (Some v)
    show ?thesis
    proof (cases v)
      case (JStr t)
      note ty = \<open>map_of d (lit ''type'') = Some v\<close> \<open>v = JStr t\<close>
      consider "t = lit ''text''" | "t = lit ''thinking''" | "t = lit ''tool_use''"
        | "t \<noteq> lit ''text''" "t \<noteq> lit ''thinking''" "t \<noteq> lit ''tool_use''"
        by blast
      then show ?thesis
      proof cases
        case 1
        with assms JObj ty show ?thesis
          by (auto simp: block_of_def extract_item_def dict_get_eq_JStr dict_get_def
                         strs_of_snoc lit_distinct_types split: option.splits json.splits)
      next
        case 2
        with assms JObj ty show ?thesis
          by (auto simp: block_of_def extract_item_def dict_get_eq_JStr strs_of_snoc
                         lit_distinct_types)
      next
        case 3
        with assms JObj ty show ?thesis
          by (auto simp: block_of_def extract_item_def dict_get_eq_JStr strs_of_snoc
                         lit_distinct_types Let_def)
      next
        case 4
        with assms JObj ty show ?thesis
          by (auto simp: block_of_def extract_item_def dict_get_eq_JStr split: if_splits)
      qed
    qed (use assms JObj Some in \<open>auto simp: block_of_def extract_item_def dict_get_eq_JStr\<close>)
  qed
qed (use assms in \<open>auto simp: block_of_def extract_item_def strs_of_snoc\<close>)

lemma extract_loop_blocks:
  "map (block_of L) items = map Some blocks \<Longrightarrow> strs_of texts = Some ts \<Longrightarrow>
   strs_of (extract_loop L items texts) =
     Some (ts @ concat (map (spec_plain_fragment L) blocks))"
proof (induction items arbitrary: texts ts blocks)
  case Nil
  then show ?case by simp
next
  case (Cons item items)
  from Cons.prems(1) obtain b bs where
    bs: "blocks = b # bs" "block_of L item = Some b" "map (block_of L) items = map Some bs"
    by (cases blocks) auto
  from extract_item_block [OF bs(2) Cons.prems(2)]
  have "strs_of (extract_item L item texts) = Some (ts @ spec_plain_fragment L b)" .
  from Cons.IH [OF bs(3) this] bs(1) show ?case by simp
qed

text \<open>
  C7. A block list whose items read as the blocks \<open>blocks\<close> (every \<^verbatim>\<open>text\<close> field a
  string) is extracted to the fragments the specification lists, joined with newlines in
  block order: a text block gives its text, a thinking block its text between
  \<^verbatim>\<open>[THINKING]\<close> and \<^verbatim>\<open>[/THINKING]\<close>, a tool call its name and its input as indented JSON
  between \<^verbatim>\<open>[TOOL: name]\<close> and \<^verbatim>\<open>[/TOOL]\<close>, a bare string itself, and any other item
  nothing. A string is returned as it is. The two examples of the specification hold.
\<close>

theorem extract_plain_text:
  assumes "map (block_of L) items = map Some blocks"
  shows "extract_text_content L (JArr items) = Inr (spec_extractPlainText L blocks) \<and>
         extract_text_content L (JStr s) = Inr s \<and>
         extract_text_content L (JArr [thinking_block (lit ''x'')]) =
           Inr (lit ''[THINKING]\<newline>x\<newline>[/THINKING]'') \<and>
         extract_text_content L (JArr [text_block ''hi'']) = Inr (lit ''hi'')"
proof -
  from extract_loop_blocks [OF assms, of "[]" "[]"]
  have "extract_text_content L (JArr items) = Inr (spec_extractPlainText L blocks)"
    by (simp add: extract_text_content_def join_values_def spec_extractPlainText_def)
  moreover have "extract_text_content L (JStr s) = Inr s"
    by (simp add: extract_text_content_def)
  moreover have "extract_text_content L (JArr [thinking_block (lit ''x'')]) =
           Inr (lit ''[THINKING]\<newline>x\<newline>[/THINKING]'')"
    by (simp add: extract_text_content_def join_values_def extract_item_def thinking_block_def
                  dict_get_def fmt_def lit_def)
  moreover have "extract_text_content L (JArr [text_block ''hi'']) = Inr (lit ''hi'')"
    by (simp add: extract_text_content_def join_values_def extract_item_def text_block_def
                  dict_get_def lit_def)
  ultimately show ?thesis by simp
qed

theorem extract_plain_text_witness:
  "map (block_of example_lib)
       [text_block ''hi'', thinking_block (lit ''x''), JStr (lit ''raw''),
        JObj [(lit ''type'', JStr (lit ''image''))]] =
     map Some [Text (lit ''hi''), Thinking (lit ''x''), Bare (lit ''raw''), Unknown] \<and>
   extract_text_content example_lib
       (JArr [text_block ''hi'', thinking_block (lit ''x''), JStr (lit ''raw''),
              JObj [(lit ''type'', JStr (lit ''image''))]]) =
     Inr (lit ''hi\<newline>[THINKING]\<newline>x\<newline>[/THINKING]\<newline>raw'')"
proof -
  have h: "map (block_of example_lib)
       [text_block ''hi'', thinking_block (lit ''x''), JStr (lit ''raw''),
        JObj [(lit ''type'', JStr (lit ''image''))]] =
     map Some [Text (lit ''hi''), Thinking (lit ''x''), Bare (lit ''raw''), Unknown]"
    by (simp add: block_of_def text_block_def thinking_block_def dict_get_def fmt_def lit_def)
  have e: "spec_extractPlainText example_lib
             [Text (lit ''hi''), Thinking (lit ''x''), Bare (lit ''raw''), Unknown] =
           lit ''hi\<newline>[THINKING]\<newline>x\<newline>[/THINKING]\<newline>raw''"
    by (simp add: spec_extractPlainText_def lit_def)
  from extract_plain_text [OF h] h e show ?thesis by simp
qed

section \<open>Properties of render_message_content\<close>

subsection \<open>The loop\<close>

lemma render_loop_append:
  "render_loop L (xs @ ys) parts =
     (case render_loop L xs parts of Inl e \<Rightarrow> Inl e | Inr parts' \<Rightarrow> render_loop L ys parts')"
  by (induction xs arbitrary: parts) (auto split: sum.splits)

lemma render_item_JStr: "render_item L (JStr s) parts = Inr parts"
  by (simp add: render_item_def)

lemma render_loop_strings: "render_loop L (map JStr ss) parts = Inr parts"
  by (induction ss) (simp_all add: render_item_JStr)

lemma extract_loop_strings: "extract_loop L (map JStr ss) texts = texts @ map JStr ss"
  by (induction ss arbitrary: texts) (simp_all add: extract_item_def)

text \<open>
  C10. In formatted rendering a bare string item of a block list adds no fragment and
  raises nothing: the rendering is that of the list without the item, and a list of bare
  strings only renders as the placeholder. Plain-text extraction of the same list returns
  the strings, joined with newlines.
\<close>

theorem bare_string_dropped:
  "render_message_content L (JArr (pre @ JStr s # post)) =
     render_message_content L (JArr (pre @ post)) \<and>
   render_message_content L (JArr (map JStr ss)) = Inr placeholder \<and>
   extract_text_content L (JArr (map JStr ss)) = Inr (join (lit ''\<newline>'') ss)"
proof -
  have "render_loop L (pre @ JStr s # post) [] = render_loop L (pre @ post) []"
    by (simp add: render_loop_append render_item_JStr split: sum.splits)
  then have "render_message_content L (JArr (pre @ JStr s # post)) =
     render_message_content L (JArr (pre @ post))"
    by (simp add: render_message_content_def)
  moreover have "render_message_content L (JArr (map JStr ss)) = Inr placeholder"
    by (simp add: render_message_content_def render_loop_strings finish_def)
  moreover have "extract_text_content L (JArr (map JStr ss)) = Inr (join (lit ''\<newline>'') ss)"
    by (simp add: extract_text_content_def extract_loop_strings join_values_def
                  strs_of_map_JStr)
  ultimately show ?thesis by simp
qed

subsection \<open>No exception on well-typed blocks\<close>

lemma tool_display_dict: "\<exists>display. tool_display L tool_name (JObj ti) = Inr display"
  by (simp add: tool_display_def Let_def)

lemma opt_str_escape:
  "opt_str d k \<Longrightarrow> \<exists>t. escape_value (dict_get d k (JStr dflt)) = Inr t"
  by (auto simp: opt_str_def dict_get_def escape_value_def split: option.splits json.splits)

lemma opt_str_get:
  "opt_str d k \<Longrightarrow> \<exists>t. dict_get d k (JStr dflt) = JStr t"
  by (auto simp: opt_str_def dict_get_def split: option.splits json.splits)

lemma opt_dict_get:
  "opt_dict d k \<Longrightarrow> \<exists>m. dict_get d k (JObj []) = JObj m"
  by (auto simp: opt_dict_def dict_get_def split: option.splits json.splits)

lemma render_item_ok:
  assumes "item_ok item"
  shows "\<exists>parts'. render_item L item parts = Inr parts'"
proof (cases item)
  case (JObj d)
  with assms have ok: "opt_str d (lit ''text'')" "opt_str d (lit ''thinking'')"
    "opt_str d (lit ''name'')" "opt_dict d (lit ''input'')"
    by (simp_all add: item_ok_def)
  from opt_str_escape [OF ok(1), of "[]"] obtain t where
    t: "escape_value (dict_get d (lit ''text'') (JStr [])) = Inr t" ..
  from opt_str_get [OF ok(2), of "[]"] obtain body where
    b: "dict_get d (lit ''thinking'') (JStr []) = JStr body" ..
  from opt_str_escape [OF ok(3), of "lit ''Unknown''"] obtain n where
    n: "escape_value (dict_get d (lit ''name'') (JStr (lit ''Unknown''))) = Inr n" ..
  from opt_dict_get [OF ok(4)] obtain ti where
    i: "dict_get d (lit ''input'') (JObj []) = JObj ti" ..
  from tool_display_dict [of L n ti] obtain display where
    dp: "tool_display L n (JObj ti) = Inr display" ..
  from JObj t b n i dp show ?thesis
    by (simp add: render_item_def Let_def)
qed (simp_all add: render_item_def)

lemma render_loop_ok:
  "list_all item_ok items \<Longrightarrow> \<exists>parts'. render_loop L items parts = Inr parts'"
proof (induction items arbitrary: parts)
  case Nil
  then show ?case by simp
next
  case (Cons item items)
  then have "item_ok item" by simp
  from render_item_ok [OF this, of L parts] obtain p1 where
    "render_item L item parts = Inr p1" ..
  with Cons.IH [of p1] Cons.prems show ?case by simp
qed

lemma item_ok_block: "item_ok item \<Longrightarrow> \<exists>b. block_of L item = Some b"
  by (cases item)
     (auto simp: item_ok_def block_of_def opt_str_def split: option.splits json.splits)

lemma items_ok_blocks:
  "list_all item_ok items \<Longrightarrow> \<exists>blocks. map (block_of L) items = map Some blocks"
proof (induction items)
  case Nil
  then show ?case by simp
next
  case (Cons item items)
  then obtain bs where bs: "map (block_of L) items = map Some bs" by auto
  from Cons.prems have "item_ok item" by simp
  from item_ok_block [OF this, of L] obtain b where "block_of L item = Some b" ..
  with bs have "map (block_of L) (item # items) = map Some (b # bs)" by simp
  then show ?case by blast
qed

text \<open>
  C2, as the code has it. For a content that is neither a string nor a list both entry
  points return their default, \<open>extract_text_content\<close> the empty string and
  \<open>render_message_content\<close> the placeholder; and on a block list in which every field the
  code reads is missing or of its type, neither raises.
\<close>

theorem content_defaults:
  "(\<not> str_or_list c \<longrightarrow>
      extract_text_content L c = Inr [] \<and> render_message_content L c = Inr placeholder) \<and>
   (list_all item_ok items \<longrightarrow>
      (\<exists>t. extract_text_content L (JArr items) = Inr t) \<and>
      (\<exists>h. render_message_content L (JArr items) = Inr h))"
proof (intro conjI impI)
  assume n: "\<not> str_or_list c"
  then show "extract_text_content L c = Inr []"
    by (cases c) (simp_all add: str_or_list_def extract_text_content_def)
  from n show "render_message_content L c = Inr placeholder"
    by (cases c) (simp_all add: str_or_list_def render_message_content_def finish_def)
next
  assume ok: "list_all item_ok items"
  from items_ok_blocks [OF ok, of L] obtain blocks where
    "map (block_of L) items = map Some blocks" ..
  from extract_loop_blocks [OF this, of "[]" "[]"]
  show "\<exists>t. extract_text_content L (JArr items) = Inr t"
    by (simp add: extract_text_content_def join_values_def)
  from render_loop_ok [OF ok, of L "[]"]
  show "\<exists>h. render_message_content L (JArr items) = Inr h"
    by (auto simp: render_message_content_def)
qed

theorem content_defaults_witness:
  "\<not> str_or_list (JInt 5) \<and>
   extract_text_content example_lib (JInt 5) = Inr [] \<and>
   render_message_content example_lib (JInt 5) = Inr placeholder \<and>
   list_all item_ok [JObj [(lit ''type'', JStr (lit ''text''))],
                     JObj [(lit ''type'', JStr (lit ''thinking''))],
                     JObj [(lit ''type'', JStr (lit ''tool_use''))],
                     JObj [(lit ''type'', JStr (lit ''tool_result''))], JObj []] \<and>
   (\<exists>t. extract_text_content example_lib
           (JArr [JObj [(lit ''type'', JStr (lit ''text''))],
                  JObj [(lit ''type'', JStr (lit ''thinking''))],
                  JObj [(lit ''type'', JStr (lit ''tool_use''))],
                  JObj [(lit ''type'', JStr (lit ''tool_result''))], JObj []]) = Inr t) \<and>
   (\<exists>h. render_message_content example_lib
           (JArr [JObj [(lit ''type'', JStr (lit ''text''))],
                  JObj [(lit ''type'', JStr (lit ''thinking''))],
                  JObj [(lit ''type'', JStr (lit ''tool_use''))],
                  JObj [(lit ''type'', JStr (lit ''tool_result''))], JObj []]) = Inr h)"
proof -
  let ?items = "[JObj [(lit ''type'', JStr (lit ''text''))],
                 JObj [(lit ''type'', JStr (lit ''thinking''))],
                 JObj [(lit ''type'', JStr (lit ''tool_use''))],
                 JObj [(lit ''type'', JStr (lit ''tool_result''))], JObj []]"
  have n: "\<not> str_or_list (JInt 5)"
    by (simp add: str_or_list_def)
  have ok: "list_all item_ok ?items"
    by (simp add: item_ok_def opt_str_def opt_dict_def lit_def)
  from content_defaults [of "JInt 5" example_lib ?items] n ok show ?thesis
    by blast
qed

text \<open>
  C2 as stated fails: a number as content makes neither entry point raise; each returns
  its default.
\<close>

theorem content_type_counterexample:
  "render_message_content example_lib (JInt 5) = Inr placeholder \<and>
   extract_text_content example_lib (JInt 5) = Inr []"
  by (simp add: render_message_content_def extract_text_content_def finish_def)

subsection \<open>Escaping and truncation\<close>

lemma replace_append: "replace a r (xs @ ys) = replace a r xs @ replace a r ys"
  by (simp add: replace_def)

lemma replace_Nil: "replace a r [] = []"
  by (simp add: replace_def)

lemma escape_append: "escape (xs @ ys) = escape xs @ escape ys"
  by (simp add: escape_def replace_append)

lemma escape_Nil: "escape [] = []"
  by (simp add: escape_def replace_Nil)

lemma escape_single:
  "escape [c] =
     (if c = 38 then lit ''&amp;'' else if c = 60 then lit ''&lt;''
      else if c = 62 then lit ''&gt;'' else if c = 34 then lit ''&quot;''
      else if c = 39 then lit ''&#x27;'' else [c])"
  by (simp add: escape_def replace_def lit_def)

lemma escape_single_nonempty: "escape [c] \<noteq> []"
  by (simp add: escape_single lit_def)

lemma escape_concat: "escape s = concat (map (\<lambda>c. escape [c]) s)"
proof (induction s)
  case Nil
  show ?case by (simp add: escape_Nil)
next
  case (Cons c s)
  have "escape (c # s) = escape ([c] @ s)" by simp
  also have "\<dots> = escape [c] @ escape s" by (rule escape_append)
  finally show ?case using Cons by simp
qed

lemma take_concat_prefix:
  assumes "\<And>x. f x \<noteq> []"
  shows "k \<le> m \<Longrightarrow> take k (concat (map f xs)) = take k (concat (map f (take m xs)))"
proof (induction xs arbitrary: k m)
  case Nil
  show ?case by simp
next
  case (Cons x xs)
  show ?case
  proof (cases m)
    case 0
    with Cons.prems show ?thesis by simp
  next
    case (Suc m')
    from assms [of x] have "length (f x) \<ge> 1"
      by (cases "f x") simp_all
    with Cons.prems Suc have "k - length (f x) \<le> m'" by simp
    from Cons.IH [OF this] Suc show ?thesis by simp
  qed
qed

lemma take_escape: "take n (escape s) = take n (escape (take n s))"
proof -
  have "take n (concat (map (\<lambda>c. escape [c]) s)) =
        take n (concat (map (\<lambda>c. escape [c]) (take n s)))"
    by (rule take_concat_prefix) (simp_all add: escape_single_nonempty)
  then show ?thesis
    using escape_concat [of s] escape_concat [of "take n s"] by simp
qed

lemma escape_plain:
  "\<forall>c \<in> set s. c \<noteq> 38 \<and> c \<noteq> 60 \<and> c \<noteq> 62 \<and> c \<noteq> 34 \<and> c \<noteq> 39 \<Longrightarrow> escape s = s"
proof (induction s)
  case Nil
  show ?case by (simp add: escape_Nil)
next
  case (Cons c s)
  then have "escape [c] = [c]"
    by (simp add: escape_single)
  moreover have "escape (c # s) = escape [c] @ escape s"
    using escape_append [of "[c]" s] by simp
  ultimately show ?case using Cons by simp
qed

lemma thinking_open_split:
  \<open>thinking_open =
     (lit ''\<newline>'' @ spaces 24) @ lit ''<div class="message thinking">'' @
     (lit ''\<newline>'' @ spaces 28 @ lit ''<div class="message-header">\<newline>'' @
      spaces 32 @ lit ''<span>'' @ [128173] @ lit '' Thinking (click to expand)</span>\<newline>'' @
      spaces 28 @ lit ''</div>\<newline>'' @
      spaces 28 @ lit ''<div class="message-content">'')\<close>
  by (simp add: thinking_open_def lit_def)

lemma thinking_open_marked:
  \<open>\<exists>a b. thinking_open = a @ lit ''<div class="message thinking">'' @ b\<close>
  using thinking_open_split by blast

lemma render_single:
  "render_item L item [] = Inr [fragment] \<Longrightarrow>
   render_message_content L (JArr [item]) = Inr fragment"
  by (simp add: render_message_content_def finish_def)

text \<open>
  C6. A thinking block whose body is a string (the empty string when the field is
  missing) is rendered as one fragment, wherever it stands in the list: the body is
  escaped and cut to its first 1000 characters, the marker \<^verbatim>\<open>... (truncated)\<close> follows
  exactly when the body itself has more than 1000 characters, and the fragment is wrapped
  in the element of class \<^verbatim>\<open>message thinking\<close>, whose content the style sheet hides
  until it is expanded. What is shown is at most 1000 characters long and is determined
  by the first 1000 characters of the body.
\<close>

theorem thinking_truncated:
  assumes \<open>dict_get d (lit ''type'') (JStr []) = JStr (lit ''thinking'')\<close>
    and \<open>dict_get d (lit ''thinking'') (JStr []) = JStr body\<close>
  shows \<open>render_item L (JObj d) parts =
           Inr (parts @ [thinking_open @ take 1000 (escape body) @
                         (if length body > 1000 then truncation_marker else []) @
                         block_close]) \<and>
         render_message_content L (JArr [JObj d]) =
           Inr (thinking_open @ take 1000 (escape body) @
                (if length body > 1000 then truncation_marker else []) @ block_close) \<and>
         length (take 1000 (escape body)) \<le> 1000 \<and>
         take 1000 (escape body) = take 1000 (escape (take 1000 body)) \<and>
         (\<exists>a b. thinking_open = a @ lit ''<div class="message thinking">'' @ b)\<close>
proof -
  have t: "lit ''thinking'' \<noteq> lit ''text''"
    by (simp add: lit_def)
  have item: "render_item L (JObj d) ps =
           Inr (ps @ [thinking_open @ take 1000 (escape body) @
                         (if length body > 1000 then truncation_marker else []) @
                         block_close])" for ps
    unfolding render_item_def using assms t by (simp add: Let_def)
  have whole: "render_message_content L (JArr [JObj d]) =
           Inr (thinking_open @ take 1000 (escape body) @
                (if length body > 1000 then truncation_marker else []) @ block_close)"
    by (rule render_single) (simp add: item)
  have len: "length (take 1000 (escape body)) \<le> 1000"
    by simp
  from item [of parts] whole len take_escape [of 1000 body] thinking_open_marked
  show ?thesis by (intro conjI)
qed

theorem thinking_truncated_witness:
  "dict_get [(lit ''type'', JStr (lit ''thinking'')), (lit ''thinking'', JStr (replicate 2000 120))]
            (lit ''type'') (JStr []) = JStr (lit ''thinking'') \<and>
   dict_get [(lit ''type'', JStr (lit ''thinking'')), (lit ''thinking'', JStr (replicate 2000 120))]
            (lit ''thinking'') (JStr []) = JStr (replicate 2000 120) \<and>
   render_message_content example_lib
     (JArr [JObj [(lit ''type'', JStr (lit ''thinking'')),
                  (lit ''thinking'', JStr (replicate 2000 120))]]) =
     Inr (thinking_open @ replicate 1000 120 @ truncation_marker @ block_close)"
proof -
  let ?d = "[(lit ''type'', JStr (lit ''thinking'')),
             (lit ''thinking'', JStr (replicate 2000 120))]"
  have h1: "dict_get ?d (lit ''type'') (JStr []) = JStr (lit ''thinking'')"
    by (simp add: dict_get_def lit_def)
  have h2: "dict_get ?d (lit ''thinking'') (JStr []) = JStr (replicate 2000 120)"
    by (simp add: dict_get_def lit_def)
  have e: "escape (replicate 2000 120) = replicate 2000 (120::nat)"
    by (rule escape_plain) simp
  have k: "take 1000 (replicate 2000 (120::nat)) = replicate 1000 120"
    by simp
  from thinking_truncated [OF h1 h2, of example_lib "[]"]
  have "render_message_content example_lib (JArr [JObj ?d]) =
          Inr (thinking_open @ take 1000 (escape (replicate 2000 120)) @
               (if length (replicate 2000 (120::nat)) > 1000 then truncation_marker else []) @
               block_close)"
    by (elim conjE)
  then have "render_message_content example_lib (JArr [JObj ?d]) =
          Inr (thinking_open @ replicate 1000 120 @ truncation_marker @ block_close)"
    by (simp only: e k length_replicate) simp
  with h1 h2 show ?thesis by (intro conjI)
qed

subsection \<open>Tool calls\<close>

lemma escape_Bash: "escape (lit ''Bash'') = lit ''Bash''"
  by (rule escape_plain) (simp add: lit_def)

text \<open>
  C8. For a tool call named \<^verbatim>\<open>Bash\<close> whose input is a mapping, the body computed for
  display is \<^verbatim>\<open>$ <command>\<close>, with \<^verbatim>\<open># <description>\<close> on a line of its own before it
  when the description tests true (for a string: is not empty); the fragment holds that
  body, HTML-escaped, under the header naming the tool.
\<close>

theorem bash_body:
  assumes "dict_get d (lit ''type'') (JStr []) = JStr (lit ''tool_use'')"
    and "dict_get d (lit ''name'') (JStr (lit ''Unknown'')) = JStr (lit ''Bash'')"
    and "dict_get d (lit ''input'') (JObj []) = JObj ti"
  shows "tool_display L (lit ''Bash'') (JObj ti) = Inr (spec_bash_body L ti) \<and>
         render_message_content L (JArr [JObj d]) =
           Inr (tool_open ([128295, 32] @ lit ''Bash'') @ escape (spec_bash_body L ti) @
                block_close)"
proof -
  have t: "lit ''tool_use'' \<noteq> lit ''text''" "lit ''tool_use'' \<noteq> lit ''thinking''"
    by (simp_all add: lit_def)
  have disp: "tool_display L (lit ''Bash'') (JObj ti) = Inr (spec_bash_body L ti)"
    by (simp add: tool_display_def spec_bash_body_def Let_def lit_def)
  have "render_item L (JObj d) [] =
          Inr [tool_open ([128295, 32] @ lit ''Bash'') @ escape (spec_bash_body L ti) @
               block_close]"
    unfolding render_item_def using assms t disp
    by (simp add: Let_def escape_value_def escape_Bash)
  then have "render_message_content L (JArr [JObj d]) =
           Inr (tool_open ([128295, 32] @ lit ''Bash'') @ escape (spec_bash_body L ti) @
                block_close)"
    by (rule render_single)
  with disp show ?thesis by (intro conjI)
qed

theorem bash_body_witness:
  "dict_get (bash_block ''ls -la'' ''list files'') (lit ''input'') (JObj []) =
     JObj (bash_input ''ls -la'' ''list files'') \<and>
   tool_display example_lib (lit ''Bash'') (JObj (bash_input ''ls -la'' ''list files'')) =
     Inr (lit ''# list files\<newline>$ ls -la'') \<and>
   render_message_content example_lib (JArr [JObj (bash_block ''ls -la'' ''list files'')]) =
     Inr (tool_open ([128295, 32] @ lit ''Bash'') @ lit ''# list files\<newline>$ ls -la'' @
          block_close)"
proof -
  let ?d = "bash_block ''ls -la'' ''list files''"
  let ?ti = "bash_input ''ls -la'' ''list files''"
  have h1: "dict_get ?d (lit ''type'') (JStr []) = JStr (lit ''tool_use'')"
    by (simp add: dict_get_def bash_block_def lit_def)
  have h2: "dict_get ?d (lit ''name'') (JStr (lit ''Unknown'')) = JStr (lit ''Bash'')"
    by (simp add: dict_get_def bash_block_def lit_def)
  have h3: "dict_get ?d (lit ''input'') (JObj []) = JObj ?ti"
    by (simp add: dict_get_def bash_block_def lit_def)
  have b: "spec_bash_body example_lib ?ti = lit ''# list files\<newline>$ ls -la''"
    by (simp add: spec_bash_body_def bash_input_def dict_get_def fmt_def lit_def)
  have e: "escape (lit ''# list files\<newline>$ ls -la'') = lit ''# list files\<newline>$ ls -la''"
    by (rule escape_plain) (simp add: lit_def)
  from bash_body [OF h1 h2 h3, of example_lib] h3 show ?thesis
    by (simp only: b e)
qed

section \<open>Properties of get_all_sessions\<close>

lemma collect_files_eq:
  "collect_files L project_path fs sessions =
     sessions @ List.map_filter (session_of_file L project_path) fs"
  by (induction fs arbitrary: sessions) (auto simp: List.map_filter_simps split: option.splits)

lemma collect_sessions_eq:
  "collect_sessions L entries sessions = sessions @ discovered L entries"
  by (induction entries arbitrary: sessions) (simp_all add: discovered_def collect_files_eq)

lemma sort_reverse_sorted:
  "sorted_wrt (\<lambda>a b. key a \<ge> key b) (sort_reverse key xs)"
proof -
  have "sorted (map key (sort_key key (rev xs)))"
    by simp
  then have "sorted_wrt (\<lambda>a b. key a \<le> key b) (sort_key key (rev xs))"
    by (simp add: sorted_map)
  then show ?thesis
    by (simp add: sort_reverse_def sorted_wrt_rev)
qed

lemma sort_reverse_stable:
  "filter (\<lambda>x. key x = k) (sort_reverse key xs) = filter (\<lambda>x. key x = k) xs"
proof -
  have "filter (\<lambda>x. key x = k) (sort_reverse key xs) =
        rev (filter (\<lambda>x. key x = k) (sort_key key (rev xs)))"
    by (simp add: sort_reverse_def rev_filter)
  also have "\<dots> = rev (filter (\<lambda>x. key x = k) (rev xs))"
    by (simp only: sort_key_stable)
  also have "\<dots> = filter (\<lambda>x. key x = k) xs"
    by (simp add: rev_filter)
  finally show ?thesis .
qed

lemma sort_reverse_mset: "mset (sort_reverse key xs) = mset xs"
  by (simp add: sort_reverse_def)

text \<open>
  C9. The catalog is ordered by modification time, newest first; the entries that share
  a modification time stand in the catalog in the order in which they were discovered;
  and the catalog holds exactly the discovered entries.
\<close>

theorem catalog_sorted_stable:
  "sorted_wrt (\<lambda>a b. s_modified a \<ge> s_modified b) (get_all_sessions L (Some entries)) \<and>
   (\<forall>t. filter (\<lambda>s. s_modified s = t) (get_all_sessions L (Some entries)) =
        filter (\<lambda>s. s_modified s = t) (discovered L entries)) \<and>
   mset (get_all_sessions L (Some entries)) = mset (discovered L entries)"
proof -
  have g: "get_all_sessions L (Some entries) = sort_reverse s_modified (discovered L entries)"
    by (simp add: get_all_sessions_def collect_sessions_eq)
  show ?thesis
    unfolding g
    using sort_reverse_sorted [of s_modified "discovered L entries"]
      sort_reverse_stable [of s_modified _ "discovered L entries"]
      sort_reverse_mset [of s_modified "discovered L entries"]
    by (intro conjI allI)
qed

end
